theory Spec2Isabelle
  imports Main "HOL-Library.Sublist"
begin

section \<open>Python values used by the asset managers\<close>

text \<open>
  The exceptions that the modelled code can meet. \<open>ValueError\<close> is what
  \<^verbatim>\<open>random.randint\<close> raises on an empty range, \<open>IndexError\<close> what a list
  subscript raises out of range, \<open>OverflowError\<close> what the true division of
  integers raises when the quotient is too large for a float, and \<open>SourceFailure\<close>
  stands for any exception raised by a random source that has been replaced by a
  failing one.
\<close>

datatype error = ValueError | IndexError | OverflowError | SourceFailure

text \<open>
  The random source. Every call of \<^verbatim>\<open>random.randint\<close> consumes one draw: either
  a raw amount of entropy, or the event that the source raises. The source is the
  stream of its future draws; a call returns the stream's tail.
\<close>

datatype draw = Raw nat | Raises

type_synonym rng = "nat \<Rightarrow> draw"

definition advance :: "rng \<Rightarrow> rng" where
  "advance g = (\<lambda>n. g (Suc n))"

text \<open>
  \<^verbatim>\<open>random.randint(a, b)\<close>: an integer \<open>N\<close> with \<open>a \<le> N \<le> b\<close>, every such value
  being possible; \<^verbatim>\<open>ValueError\<close> on an empty range.
\<close>

definition randint :: "int \<Rightarrow> int \<Rightarrow> rng \<Rightarrow> (error + int) \<times> rng" where
  "randint a b g =
     (if b < a then (Inl ValueError, g)
      else (case g 0 of
              Raises \<Rightarrow> (Inl SourceFailure, advance g)
            | Raw r \<Rightarrow> (Inr (a + int (r mod nat (b - a + 1))), advance g)))"

text \<open>\<^verbatim>\<open>xs[i]\<close> for an integer \<open>i\<close>: negative subscripts count from the end.\<close>

definition py_getitem :: "'a list \<Rightarrow> int \<Rightarrow> error + 'a" where
  "py_getitem xs i =
     (let n = int (length xs); j = (if i < 0 then i + n else i)
      in if 0 \<le> j \<and> j < n then Inr (xs ! nat j) else Inl IndexError)"

text \<open>\<^verbatim>\<open>str(n)\<close> and \<^verbatim>\<open>f"{n}"\<close> for an integer: its decimal digits, with a sign.\<close>

definition digit_char :: "nat \<Rightarrow> char" where
  "digit_char d = ''0123456789'' ! d"

function str_nat :: "nat \<Rightarrow> string" where
  "str_nat n = (if n < 10 then [digit_char n] else str_nat (n div 10) @ [digit_char (n mod 10)])"
  by pat_completeness auto
termination
  by (relation "measure id") auto

declare str_nat.simps [simp del]

definition str_int :: "int \<Rightarrow> string" where
  "str_int i = (if i < 0 then ''-'' @ str_nat (nat (- i)) else str_nat (nat i))"

text \<open>\<^verbatim>\<open>s.replace(" ", "+")\<close>.\<close>

definition replace_space :: "string \<Rightarrow> string" where
  "replace_space s = map (\<lambda>c. if c = CHR '' '' then CHR ''+'' else c) s"

section \<open>\<^verbatim>\<open>ProfessionalAssetManager\<close> (app/core/assets.py)\<close>

definition AI_CATEGORIES :: "string list" where
  "AI_CATEGORIES =
     [''artificial intelligence'', ''machine learning'', ''data science'',
      ''neural network'', ''technology'', ''code'', ''algorithm'', ''robotics'',
      ''deep learning'', ''computer vision'']"

definition FALLBACK_IMAGES :: "string list" where
  "FALLBACK_IMAGES =
     [''https://picsum.photos/800/600?random=1'',
      ''https://picsum.photos/800/600?random=2'',
      ''https://picsum.photos/800/600?random=3'',
      ''https://picsum.photos/800/600?random=4'',
      ''https://picsum.photos/800/600?random=5'']"

text \<open>
  The body of the \<^verbatim>\<open>try\<close> block of \<^verbatim>\<open>get_ai_image\<close>. The delay
  (\<^verbatim>\<open>asyncio.sleep\<close>) has no effect on the value and is left out.
\<close>

definition select_category :: "int \<Rightarrow> error + string" where
  "select_category index = py_getitem AI_CATEGORIES (index mod int (length AI_CATEGORIES))"

definition image_url :: "int \<Rightarrow> int \<Rightarrow> string \<Rightarrow> int \<Rightarrow> string" where
  "image_url width height formatted_category seed =
     ''https://source.unsplash.com/'' @ str_int width @ ''x'' @ str_int height @ ''/?'' @
     formatted_category @ ''&sig='' @ str_int seed"

definition get_ai_image_try :: "int \<Rightarrow> int \<Rightarrow> int \<Rightarrow> rng \<Rightarrow> (error + string) \<times> rng" where
  "get_ai_image_try index width height g =
     (case select_category index of
        Inl e \<Rightarrow> (Inl e, g)
      | Inr category \<Rightarrow>
          (case randint 1000 9999 g of
             (Inl e, g') \<Rightarrow> (Inl e, g')
           | (Inr seed, g') \<Rightarrow>
               (let formatted_category = replace_space category
                in (Inr (image_url width height formatted_category seed), g'))))"

text \<open>The whole function: the handler answers every exception of the body.\<close>

definition get_ai_image :: "int \<Rightarrow> int \<Rightarrow> int \<Rightarrow> rng \<Rightarrow> (error + string) \<times> rng" where
  "get_ai_image index width height g =
     (case get_ai_image_try index width height g of
        (Inr img_url, g') \<Rightarrow> (Inr img_url, g')
      | (Inl e, g') \<Rightarrow>
          (py_getitem FALLBACK_IMAGES (index mod int (length FALLBACK_IMAGES)), g'))"

section \<open>\<^verbatim>\<open>AssetManager\<close> (main.py)\<close>

definition AssetManager_AI_CATEGORIES :: "string list" where
  "AssetManager_AI_CATEGORIES =
     [''artificial intelligence'', ''machine learning'', ''data science'',
      ''neural network'', ''technology'', ''code'', ''algorithm'', ''robotics'']"

definition AssetManager_select_category :: "int \<Rightarrow> error + string" where
  "AssetManager_select_category index =
     py_getitem AssetManager_AI_CATEGORIES (index mod int (length AssetManager_AI_CATEGORIES))"

definition AssetManager_get_ai_image_try :: "int \<Rightarrow> rng \<Rightarrow> (error + string) \<times> rng" where
  "AssetManager_get_ai_image_try index g =
     (case AssetManager_select_category index of
        Inl e \<Rightarrow> (Inl e, g)
      | Inr category \<Rightarrow>
          (case randint 1000 9999 g of
             (Inl e, g') \<Rightarrow> (Inl e, g')
           | (Inr seed, g') \<Rightarrow>
               (Inr (''https://source.unsplash.com/800x600/?'' @ category @ ''&sig='' @
                     str_int seed), g')))"

text \<open>
  Here the handler draws again, and formats a URL of the placeholder service; an
  exception of that second draw leaves the function.
\<close>

definition AssetManager_get_ai_image :: "int \<Rightarrow> rng \<Rightarrow> (error + string) \<times> rng" where
  "AssetManager_get_ai_image index g =
     (case AssetManager_get_ai_image_try index g of
        (Inr img_url, g') \<Rightarrow> (Inr img_url, g')
      | (Inl e, g') \<Rightarrow>
          (case randint 1 1000 g' of
             (Inl e', g'') \<Rightarrow> (Inl e', g'')
           | (Inr n, g'') \<Rightarrow> (Inr (''https://picsum.photos/800/600?random='' @ str_int n), g'')))"

section \<open>The other operations of \<^verbatim>\<open>ProfessionalAssetManager\<close>\<close>

text \<open>
  \<^verbatim>\<open>get_hero_image\<close> and \<^verbatim>\<open>get_profile_image\<close>: a fixed topic, a token of their
  own range, and a handler that draws again for a URL of the placeholder service.
\<close>

definition get_hero_image :: "int \<Rightarrow> int \<Rightarrow> rng \<Rightarrow> (error + string) \<times> rng" where
  "get_hero_image width height g =
     (case randint 10000 99999 g of
        (Inr seed, g') \<Rightarrow>
          (Inr (''https://source.unsplash.com/'' @ str_int width @ ''x'' @ str_int height @
                ''/?artificial+intelligence+technology+code&sig='' @ str_int seed), g')
      | (Inl e, g') \<Rightarrow>
          (case randint 1 1000 g' of
             (Inl e', g'') \<Rightarrow> (Inl e', g'')
           | (Inr n, g'') \<Rightarrow>
               (Inr (''https://picsum.photos/'' @ str_int width @ ''/'' @ str_int height @
                     ''?random='' @ str_int n), g'')))"

definition get_profile_image :: "int \<Rightarrow> int \<Rightarrow> rng \<Rightarrow> (error + string) \<times> rng" where
  "get_profile_image width height g =
     (case randint 5000 9999 g of
        (Inr seed, g') \<Rightarrow>
          (Inr (''https://source.unsplash.com/'' @ str_int width @ ''x'' @ str_int height @
                ''/?professional+portrait+technology&sig='' @ str_int seed), g')
      | (Inl e, g') \<Rightarrow>
          (case randint 1 1000 g' of
             (Inl e', g'') \<Rightarrow> (Inl e', g'')
           | (Inr n, g'') \<Rightarrow>
               (Inr (''https://picsum.photos/'' @ str_int width @ ''/'' @ str_int height @
                     ''?random='' @ str_int n), g'')))"



text \<open>
  \<^verbatim>\<open>cache_images\<close>. One turn of the inner loop is \<open>cache_item\<close>: the \<^verbatim>\<open>try\<close>
  block appends the URL it formats, the handler appends a fallback URL. The inner loop
  runs over \<^verbatim>\<open>range(count)\<close>, the outer loop over the categories, storing each list
  in the dictionary under its category.
\<close>

definition py_range :: "int \<Rightarrow> int list" where
  "py_range count = map int [0..<nat count]"

definition cache_item ::
  "string \<Rightarrow> int \<Rightarrow> string list \<Rightarrow> rng \<Rightarrow> (error + string list) \<times> rng" where
  "cache_item category i category_images g =
     (case randint 1000 9999 g of
        (Inr seed, g') \<Rightarrow>
          (let formatted_category = replace_space category;
               img_url = ''https://source.unsplash.com/800x600/?'' @ formatted_category @
                         ''&sig='' @ str_int seed
           in (Inr (category_images @ [img_url]), g'))
      | (Inl e, g') \<Rightarrow>
          (case py_getitem FALLBACK_IMAGES (i mod int (length FALLBACK_IMAGES)) of
             Inl e' \<Rightarrow> (Inl e', g')
           | Inr u \<Rightarrow> (Inr (category_images @ [u]), g')))"

fun cache_category ::
  "string \<Rightarrow> int list \<Rightarrow> string list \<Rightarrow> rng \<Rightarrow> (error + string list) \<times> rng" where
  "cache_category category [] category_images g = (Inr category_images, g)"
| "cache_category category (i # rest) category_images g =
     (case cache_item category i category_images g of
        (Inl e, g') \<Rightarrow> (Inl e, g')
      | (Inr category_images', g') \<Rightarrow> cache_category category rest category_images' g')"

fun cache_loop ::
  "string list \<Rightarrow> int \<Rightarrow> (string \<rightharpoonup> string list) \<Rightarrow> rng \<Rightarrow>
   (error + (string \<rightharpoonup> string list)) \<times> rng" where
  "cache_loop [] count cached_images g = (Inr cached_images, g)"
| "cache_loop (category # rest) count cached_images g =
     (case cache_category category (py_range count) [] g of
        (Inl e, g') \<Rightarrow> (Inl e, g')
      | (Inr category_images, g') \<Rightarrow>
          cache_loop rest count (cached_images(category \<mapsto> category_images)) g')"

definition cache_images ::
  "string list \<Rightarrow> int \<Rightarrow> rng \<Rightarrow> (error + (string \<rightharpoonup> string list)) \<times> rng" where
  "cache_images categories count g = cache_loop categories count Map.empty g"

section \<open>\<^verbatim>\<open>PortfolioData\<close> (main.py)\<close>

record skill =
  skill_name :: string
  skill_level :: int

record contact =
  email :: string
  linkedin :: string
  github :: string
  twitter :: string

record profile =
  profile_name :: string
  profile_title :: string
  profile_tagline :: string
  profile_about :: string
  profile_skills :: "skill list"
  profile_contact :: contact

record project =
  project_title :: string
  project_description :: string
  technologies :: "string list"
  highlights :: "string list"

definition get_profile :: profile where
  "get_profile =
     \<lparr>profile_name = ''Alex Morgan'',
      profile_title = ''Senior AI Engineer'',
      profile_tagline = ''Building intelligent systems that solve real-world problems'',
      profile_about =
          ''\<newline>'' @
          ''                Experienced AI Engineer with 7+ years of expertise in machine learning, \<newline>'' @
          ''                deep learning, and natural language processing. Passionate about developing \<newline>'' @
          ''                AI solutions that drive business value and improve user experiences.\<newline>'' @
          ''                \<newline>'' @
          ''                My approach combines strong theoretical foundations with practical \<newline>'' @
          ''                implementation skills, allowing me to take projects from research to production.\<newline>'' @
          ''            '',
      profile_skills =
        [\<lparr>skill_name = ''Machine Learning'', skill_level = 95\<rparr>,
         \<lparr>skill_name = ''Deep Learning'', skill_level = 90\<rparr>,
         \<lparr>skill_name = ''Natural Language Processing'', skill_level = 85\<rparr>,
         \<lparr>skill_name = ''Computer Vision'', skill_level = 80\<rparr>,
         \<lparr>skill_name = ''MLOps'', skill_level = 85\<rparr>,
         \<lparr>skill_name = ''Python'', skill_level = 95\<rparr>,
         \<lparr>skill_name = ''TensorFlow/PyTorch'', skill_level = 90\<rparr>,
         \<lparr>skill_name = ''Data Engineering'', skill_level = 75\<rparr>],
      profile_contact =
        \<lparr>email = ''alex.morgan@example.com'',
         linkedin = ''linkedin.com/in/alexmorgan'',
         github = ''github.com/alexmorgan-ai'',
         twitter = ''twitter.com/alexmorgan_ai''\<rparr>\<rparr>"

definition get_projects :: "project list" where
  "get_projects =
     [\<lparr>project_title = ''Conversational AI Assistant'',
       project_description =
         ''Developed an advanced conversational AI system using transformer-based architecture. The system handles complex queries with contextual understanding and maintains conversation history.'',
       technologies =
         [''PyTorch'',
          ''Transformer Models'',
          ''FastAPI'',
          ''Redis'',
          ''Docker''],
       highlights =
         [''Achieved 92% accuracy on intent recognition'',
          ''Reduced response latency by 40% through model optimization'',
          ''Implemented efficient context management for multi-turn conversations'',
          ''Deployed as a scalable microservice architecture'']\<rparr>,
      \<lparr>project_title = ''Computer Vision for Manufacturing QA'',
       project_description =
         ''Built a real-time defect detection system for manufacturing quality assurance using computer vision and deep learning techniques.'',
       technologies =
         [''TensorFlow'',
          ''OpenCV'',
          ''Kubernetes'',
          ''NVIDIA Triton'',
          ''Python''],
       highlights =
         [''Reduced manual inspection time by 75%'',
          ''Improved defect detection accuracy to 98.5%'',
          ''Implemented distributed inference for high-throughput processing'',
          ''Created custom annotation tool for efficient data labeling'']\<rparr>,
      \<lparr>project_title = ''Predictive Maintenance System'',
       project_description =
         ''Designed and implemented a predictive maintenance system for industrial equipment using time-series analysis and anomaly detection.'',
       technologies =
         [''Scikit-learn'',
          ''Prophet'',
          ''Kafka'',
          ''Spark'',
          ''AWS''],
       highlights =
         [''Reduced unplanned downtime by 35%'',
          ''Saved $1.2M annually in maintenance costs'',
          ''Processed 10TB+ of sensor data in real-time'',
          ''Developed custom feature extraction for multivariate time series'']\<rparr>,
      \<lparr>project_title = ''Recommendation Engine for E-commerce'',
       project_description =
         ''Created a personalized recommendation engine for an e-commerce platform using collaborative filtering and content-based approaches.'',
       technologies =
         [''Python'',
          ''PySpark'',
          ''Neo4j'',
          ''FastAPI'',
          ''React''],
       highlights =
         [''Increased conversion rate by 23%'',
          ''Improved average order value by 15%'',
          ''Implemented hybrid recommendation approach with real-time updates'',
          ''Designed A/B testing framework for algorithm evaluation'']\<rparr>,
      \<lparr>project_title = ''NLP for Automated Document Processing'',
       project_description =
         ''Developed an NLP system for automated document processing, classification, and information extraction from unstructured text.'',
       technologies =
         [''Hugging Face Transformers'',
          ''spaCy'',
          ''Elasticsearch'',
          ''Flask'',
          ''Docker''],
       highlights =
         [''Automated processing of 10,000+ documents daily'',
          ''Achieved 94% accuracy in document classification'',
          ''Reduced manual processing time by 80%'',
          ''Implemented custom named entity recognition for domain-specific extraction'']\<rparr>,
      \<lparr>project_title = ''MLOps Platform Development'',
       project_description =
         ''Led the development of an internal MLOps platform for model training, deployment, monitoring, and lifecycle management.'',
       technologies =
         [''Kubernetes'',
          ''TensorFlow Extended'',
          ''Prometheus'',
          ''Grafana'',
          ''Python''],
       highlights =
         [''Reduced model deployment time from weeks to hours'',
          ''Implemented automated testing and validation pipelines'',
          ''Created comprehensive monitoring for model drift and performance'',
          ''Designed reproducible training workflows with version control'']\<rparr>]"

section \<open>Observations on strings\<close>



section \<open>The batch, draw by draw\<close>

text \<open>
  What one turn of the inner loop of \<^verbatim>\<open>cache_images\<close> appends, as a function of
  the category, the loop index and the draw; and the list that the inner loop builds
  for a category from a source, one draw for each index.
\<close>

definition item_url :: "string \<Rightarrow> nat \<Rightarrow> draw \<Rightarrow> string" where
  "item_url category k d =
     (case d of
        Raw r \<Rightarrow> ''https://source.unsplash.com/800x600/?'' @ replace_space category @
                 ''&sig='' @ str_int (1000 + int (r mod 9000))
      | Raises \<Rightarrow> FALLBACK_IMAGES ! (k mod length FALLBACK_IMAGES))"

definition batch_urls :: "string \<Rightarrow> nat \<Rightarrow> rng \<Rightarrow> string list" where
  "batch_urls category n g = map (\<lambda>k. item_url category k (g k)) [0..<n]"

section \<open>Basic facts\<close>

lemma py_getitem_in_range:
  "0 \<le> i \<Longrightarrow> i < int (length xs) \<Longrightarrow> py_getitem xs i = Inr (xs ! nat i)"
  by (simp add: py_getitem_def Let_def)

lemma length_AI_CATEGORIES: "length AI_CATEGORIES = 10"
  by (simp add: AI_CATEGORIES_def)

lemma length_FALLBACK_IMAGES: "length FALLBACK_IMAGES = 5"
  by (simp add: FALLBACK_IMAGES_def)

lemma length_AssetManager_AI_CATEGORIES: "length AssetManager_AI_CATEGORIES = 8"
  by (simp add: AssetManager_AI_CATEGORIES_def)

lemma select_category_total:
  "select_category index = Inr (AI_CATEGORIES ! nat (index mod 10))"
  by (simp add: select_category_def length_AI_CATEGORIES py_getitem_in_range)

lemma AssetManager_select_category_total:
  "AssetManager_select_category index = Inr (AssetManager_AI_CATEGORIES ! nat (index mod 8))"
  by (simp add: AssetManager_select_category_def length_AssetManager_AI_CATEGORIES
      py_getitem_in_range)

lemma randint_Raw:
  "a \<le> b \<Longrightarrow> g 0 = Raw r \<Longrightarrow>
   randint a b g = (Inr (a + int (r mod nat (b - a + 1))), advance g)"
  by (simp add: randint_def)

lemma randint_Raises:
  "a \<le> b \<Longrightarrow> g 0 = Raises \<Longrightarrow> randint a b g = (Inl SourceFailure, advance g)"
  by (simp add: randint_def)

lemma get_ai_image_try_Raw:
  "g 0 = Raw r \<Longrightarrow>
   get_ai_image_try index width height g =
     (Inr (image_url width height (replace_space (AI_CATEGORIES ! nat (index mod 10)))
             (1000 + int (r mod 9000))), advance g)"
  by (simp add: get_ai_image_try_def select_category_total randint_Raw)

lemma get_ai_image_try_Raises:
  "g 0 = Raises \<Longrightarrow> get_ai_image_try index width height g = (Inl SourceFailure, advance g)"
  by (simp add: get_ai_image_try_def select_category_total randint_Raises)

lemma AssetManager_get_ai_image_try_Raw:
  "g 0 = Raw r \<Longrightarrow>
   AssetManager_get_ai_image_try index g =
     (Inr (''https://source.unsplash.com/800x600/?'' @
           AssetManager_AI_CATEGORIES ! nat (index mod 8) @ ''&sig='' @
           str_int (1000 + int (r mod 9000))), advance g)"
  by (simp add: AssetManager_get_ai_image_try_def AssetManager_select_category_total
      randint_Raw)

lemma AssetManager_get_ai_image_try_Raises:
  "g 0 = Raises \<Longrightarrow> AssetManager_get_ai_image_try index g = (Inl SourceFailure, advance g)"
  by (simp add: AssetManager_get_ai_image_try_def AssetManager_select_category_total
      randint_Raises)

section \<open>Decimal digits and occurrences\<close>

lemma digit_char_in: "d < 10 \<Longrightarrow> digit_char d \<in> set ''0123456789''"
proof -
  assume "d < 10"
  then have "d \<in> {0,1,2,3,4,5,6,7,8,9}" by auto
  then show ?thesis by (auto simp: digit_char_def)
qed


lemma str_nat_small: "n < 10 \<Longrightarrow> str_nat n = [digit_char n]"
  by (subst str_nat.simps) simp

lemma str_nat_big: "\<not> n < 10 \<Longrightarrow> str_nat n = str_nat (n div 10) @ [digit_char (n mod 10)]"
  by (subst str_nat.simps) simp

lemma str_nat_digits: "set (str_nat n) \<subseteq> set ''0123456789''"
proof (induction n rule: str_nat.induct)
  case (1 n)
  show ?case
  proof (cases "n < 10")
    case True
    have "digit_char n \<in> set ''0123456789''" using True by (rule digit_char_in)
    then show ?thesis unfolding str_nat_small [OF True] by simp
  next
    case False
    have "n mod 10 < 10" by simp
    then have "digit_char (n mod 10) \<in> set ''0123456789''" by (rule digit_char_in)
    moreover have "set (str_nat (n div 10)) \<subseteq> set ''0123456789''" using False by (rule 1)
    ultimately show ?thesis unfolding str_nat_big [OF False] by simp
  qed
qed



lemma str_nat_no_char: "c \<notin> set ''0123456789'' \<Longrightarrow> c \<notin> set (str_nat n)"
  using str_nat_digits [of n] by blast

lemma str_int_no_char: "c \<notin> set ''-0123456789'' \<Longrightarrow> c \<notin> set (str_int i)"
proof -
  assume c: "c \<notin> set ''-0123456789''"
  then have d: "c \<notin> set ''0123456789''" and m: "c \<noteq> CHR ''-''" by simp_all
  show ?thesis
  proof (cases "i < 0")
    case True
    then have "str_int i = CHR ''-'' # str_nat (nat (- i))" by (simp add: str_int_def)
    with m str_nat_no_char [OF d] show ?thesis by simp
  next
    case False
    then have "str_int i = str_nat (nat i)" by (simp add: str_int_def)
    with str_nat_no_char [OF d] show ?thesis by simp
  qed
qed




section \<open>Category rotation\<close>

text \<open>
  C2. For every non-negative index \<open>i\<close>, whatever its magnitude, the category that
  either resolver selects is the entry of its rotation list at position \<open>i\<close> modulo the
  length of the list, and the URL built when the token is drawn carries that category
  (plus-encoded by \<^verbatim>\<open>ProfessionalAssetManager\<close>, as it stands by
  \<^verbatim>\<open>AssetManager\<close>).
\<close>

theorem category_rotation:
  fixes i :: nat
  assumes "g 0 = Raw r"
  shows "select_category (int i) = Inr (AI_CATEGORIES ! (i mod length AI_CATEGORIES)) \<and>
         AssetManager_select_category (int i) =
           Inr (AssetManager_AI_CATEGORIES ! (i mod length AssetManager_AI_CATEGORIES)) \<and>
         fst (get_ai_image (int i) width height g) =
           Inr (image_url width height
                  (replace_space (AI_CATEGORIES ! (i mod length AI_CATEGORIES)))
                  (1000 + int (r mod 9000))) \<and>
         fst (AssetManager_get_ai_image (int i) g) =
           Inr (''https://source.unsplash.com/800x600/?'' @
                AssetManager_AI_CATEGORIES ! (i mod length AssetManager_AI_CATEGORIES) @
                ''&sig='' @ str_int (1000 + int (r mod 9000)))"
proof -
  have a: "nat (int i mod 10) = i mod 10" and b: "nat (int i mod 8) = i mod 8"
    by (simp_all add: nat_mod_distrib)
  have "select_category (int i) = Inr (AI_CATEGORIES ! (i mod length AI_CATEGORIES))"
    by (simp add: select_category_total length_AI_CATEGORIES a)
  moreover have "AssetManager_select_category (int i) =
      Inr (AssetManager_AI_CATEGORIES ! (i mod length AssetManager_AI_CATEGORIES))"
    by (simp add: AssetManager_select_category_total length_AssetManager_AI_CATEGORIES b)
  moreover have "fst (get_ai_image (int i) width height g) =
      Inr (image_url width height
             (replace_space (AI_CATEGORIES ! (i mod length AI_CATEGORIES)))
             (1000 + int (r mod 9000)))"
    using assms by (simp add: get_ai_image_def get_ai_image_try_Raw length_AI_CATEGORIES a)
  moreover have "fst (AssetManager_get_ai_image (int i) g) =
      Inr (''https://source.unsplash.com/800x600/?'' @
           AssetManager_AI_CATEGORIES ! (i mod length AssetManager_AI_CATEGORIES) @
           ''&sig='' @ str_int (1000 + int (r mod 9000)))"
    using assms
    by (simp add: AssetManager_get_ai_image_def AssetManager_get_ai_image_try_Raw
        length_AssetManager_AI_CATEGORIES b)
  ultimately show ?thesis by blast
qed


theorem category_rotation_witness:
  "select_category 123456789012 = Inr ''data science'' \<and>
   AssetManager_select_category 123456789012 = Inr ''technology'' \<and>
   fst (get_ai_image 123456789012 800 600 (\<lambda>_. Raw 9234)) =
     Inr ''https://source.unsplash.com/800x600/?data+science&sig=1234'' \<and>
   fst (AssetManager_get_ai_image 123456789012 (\<lambda>_. Raw 9234)) =
     Inr ''https://source.unsplash.com/800x600/?technology&sig=1234''"
  using category_rotation [of "\<lambda>_. Raw 9234" 9234 123456789012 800 600]
  by (simp add: AI_CATEGORIES_def AssetManager_AI_CATEGORIES_def image_url_def
      replace_space_def str_int_def str_nat.simps digit_char_def)

section \<open>The fallback policy\<close>

lemma advance_0: "advance g 0 = g 1"
  by (simp add: advance_def)

lemma FALLBACK_IMAGES_entry:
  "py_getitem FALLBACK_IMAGES (index mod int (length FALLBACK_IMAGES)) =
     Inr (FALLBACK_IMAGES ! nat (index mod int (length FALLBACK_IMAGES)))"
  by (rule py_getitem_in_range) (simp_all add: length_FALLBACK_IMAGES)

lemma FALLBACK_IMAGES_not_Nil: "k < 5 \<Longrightarrow> FALLBACK_IMAGES ! k \<noteq> []"
proof -
  assume "k < 5"
  then have "k \<in> {0, 1, 2, 3, 4}" by auto
  then show ?thesis by (auto simp: FALLBACK_IMAGES_def)
qed

lemma get_ai_image_try_cases:
  "(\<exists>r. g 0 = Raw r \<and>
        get_ai_image_try index width height g =
          (Inr (image_url width height (replace_space (AI_CATEGORIES ! nat (index mod 10)))
                  (1000 + int (r mod 9000))), advance g)) \<or>
   (g 0 = Raises \<and> get_ai_image_try index width height g = (Inl SourceFailure, advance g))"
  by (cases "g 0") (simp_all add: get_ai_image_try_Raw get_ai_image_try_Raises)

lemma get_ai_image_returns: "\<exists>url. fst (get_ai_image index width height g) = Inr url"
  using get_ai_image_try_cases [of g index width height]
  by (auto simp: get_ai_image_def FALLBACK_IMAGES_entry)

lemma get_ai_image_url_not_Nil:
  "fst (get_ai_image index width height g) = Inr url \<Longrightarrow> url \<noteq> []"
proof -
  assume u: "fst (get_ai_image index width height g) = Inr url"
  have "nat (index mod 5) < 5" by simp
  then have "FALLBACK_IMAGES ! nat (index mod int (length FALLBACK_IMAGES)) \<noteq> []"
    by (simp add: length_FALLBACK_IMAGES FALLBACK_IMAGES_not_Nil)
  with u get_ai_image_try_cases [of g index width height] show ?thesis
    by (auto simp: get_ai_image_def FALLBACK_IMAGES_entry image_url_def)
qed

lemma get_ai_image_handler:
  "fst (get_ai_image_try index width height g) = Inl e \<Longrightarrow>
   fst (get_ai_image index width height g) =
     Inr (FALLBACK_IMAGES ! nat (index mod int (length FALLBACK_IMAGES)))"
  by (cases "get_ai_image_try index width height g")
     (simp add: get_ai_image_def FALLBACK_IMAGES_entry)

lemma AssetManager_handler_Raw:
  "fst (AssetManager_get_ai_image_try index g) = Inl e \<Longrightarrow> g 1 = Raw n \<Longrightarrow>
   fst (AssetManager_get_ai_image index g) =
     Inr (''https://picsum.photos/800/600?random='' @ str_int (1 + int (n mod 1000)))"
proof -
  assume e: "fst (AssetManager_get_ai_image_try index g) = Inl e" and n: "g 1 = Raw n"
  have "g 0 = Raises"
  proof (cases "g 0")
    case (Raw r)
    with e show ?thesis by (simp add: AssetManager_get_ai_image_try_Raw)
  qed
  then have "AssetManager_get_ai_image_try index g = (Inl SourceFailure, advance g)"
    by (rule AssetManager_get_ai_image_try_Raises)
  moreover have "randint 1 1000 (advance g) =
      (Inr (1 + int (n mod nat (1000 - 1 + 1))), advance (advance g))"
    using n by (intro randint_Raw) (simp_all add: advance_0)
  ultimately show ?thesis by (simp add: AssetManager_get_ai_image_def)
qed

text \<open>
  C1, as amended. \<^verbatim>\<open>ProfessionalAssetManager.get_ai_image\<close> never raises: it returns
  a URL for every index, width, height and random source, and whenever its
  \<^verbatim>\<open>try\<close> block raises, the URL is the entry of \<open>FALLBACK_IMAGES\<close> at the index
  modulo the length of that list. \<^verbatim>\<open>AssetManager.get_ai_image\<close> of main.py has no
  fallback list: when its \<^verbatim>\<open>try\<close> block raises, its handler draws a number between
  1 and 1000 and returns the placeholder URL that ends in that number.
\<close>

theorem resolve_fallback:
  "(\<exists>url. fst (get_ai_image index width height g) = Inr url) \<and>
   (\<forall>e. fst (get_ai_image_try index width height g) = Inl e \<longrightarrow>
        fst (get_ai_image index width height g) =
          Inr (FALLBACK_IMAGES ! nat (index mod int (length FALLBACK_IMAGES)))) \<and>
   (\<forall>e n. fst (AssetManager_get_ai_image_try index g) = Inl e \<longrightarrow> g 1 = Raw n \<longrightarrow>
        fst (AssetManager_get_ai_image index g) =
          Inr (''https://picsum.photos/800/600?random='' @ str_int (1 + int (n mod 1000))))"
  using get_ai_image_returns get_ai_image_handler AssetManager_handler_Raw by blast

theorem resolve_fallback_witness:
  "fst (get_ai_image_try 7 1024 768 (\<lambda>k. if k = 0 then Raises else Raw 41)) =
     Inl SourceFailure \<and>
   fst (get_ai_image 7 1024 768 (\<lambda>k. if k = 0 then Raises else Raw 41)) =
     Inr ''https://picsum.photos/800/600?random=3'' \<and>
   fst (AssetManager_get_ai_image_try 7 (\<lambda>k. if k = 0 then Raises else Raw 41)) =
     Inl SourceFailure \<and>
   fst (AssetManager_get_ai_image 7 (\<lambda>k. if k = 0 then Raises else Raw 41)) =
     Inr ''https://picsum.photos/800/600?random=42''"
  using resolve_fallback [of 7 1024 768 "\<lambda>k. if k = 0 then Raises else Raw 41"]
  by (simp add: get_ai_image_try_Raises AssetManager_get_ai_image_try_Raises
      FALLBACK_IMAGES_def str_int_def str_nat.simps digit_char_def)

text \<open>
  C1 as stated fails on \<^verbatim>\<open>AssetManager.get_ai_image\<close>: with a source that raises at
  the first draw the result is a placeholder URL that is no entry of the fallback list,
  and with a source that raises at every draw the exception of the handler's own draw
  reaches the caller.
\<close>

theorem AssetManager_fallback_counterexample:
  "fst (AssetManager_get_ai_image_try 0 (\<lambda>k. if k = 0 then Raises else Raw 41)) =
     Inl SourceFailure \<and>
   fst (AssetManager_get_ai_image 0 (\<lambda>k. if k = 0 then Raises else Raw 41)) =
     Inr ''https://picsum.photos/800/600?random=42'' \<and>
   ''https://picsum.photos/800/600?random=42'' \<notin> set FALLBACK_IMAGES \<and>
   fst (AssetManager_get_ai_image 0 (\<lambda>k. Raises)) = Inl SourceFailure"
  by (simp add: AssetManager_get_ai_image_def AssetManager_get_ai_image_try_Raises
      randint_def advance_def FALLBACK_IMAGES_def str_int_def str_nat.simps digit_char_def)

section \<open>Plus-encoding of the category\<close>

text \<open>
  C3. \<^verbatim>\<open>AssetManager.get_ai_image\<close> of main.py formats the category as it stands:
  at index 0 the URL it returns on its success path contains a space.
\<close>

theorem AssetManager_url_has_space:
  "fst (AssetManager_get_ai_image 0 (\<lambda>k. Raw 234)) =
     Inr ''https://source.unsplash.com/800x600/?artificial intelligence&sig=1234'' \<and>
   CHR '' '' \<in> set ''https://source.unsplash.com/800x600/?artificial intelligence&sig=1234''"
  by (simp add: AssetManager_get_ai_image_def AssetManager_get_ai_image_try_Raw
      AssetManager_AI_CATEGORIES_def str_int_def str_nat.simps digit_char_def)

text \<open>
  \<^verbatim>\<open>ProfessionalAssetManager.get_ai_image\<close> does encode the category: no URL of
  its success path contains a space.
\<close>

lemma replace_space_no_space: "CHR '' '' \<notin> set (replace_space s)"
  by (induction s) (simp_all add: replace_space_def)

lemma image_url_no_space:
  "CHR '' '' \<notin> set c \<Longrightarrow> CHR '' '' \<notin> set (image_url width height c seed)"
  by (simp add: image_url_def str_int_no_char)

lemma get_ai_image_url_no_space:
  "g 0 = Raw r \<Longrightarrow> fst (get_ai_image index width height g) = Inr url \<Longrightarrow>
   CHR '' '' \<notin> set url"
  by (auto simp: get_ai_image_def get_ai_image_try_Raw image_url_no_space
      replace_space_no_space)

section \<open>Width and height in the URL\<close>




section \<open>Tokens and equal URLs\<close>





section \<open>The batch\<close>

lemma cache_item_eq:
  "cache_item category (int k) category_images g =
     (Inr (category_images @ [item_url category k (g 0)]), advance g)"
proof (cases "g 0")
  case (Raw r)
  then show ?thesis by (simp add: cache_item_def randint_Raw item_url_def)
next
  case Raises
  have "py_getitem FALLBACK_IMAGES (int k mod int (length FALLBACK_IMAGES)) =
      Inr (FALLBACK_IMAGES ! nat (int k mod int (length FALLBACK_IMAGES)))"
    by (rule FALLBACK_IMAGES_entry)
  moreover have "nat (int k mod int (length FALLBACK_IMAGES)) = k mod length FALLBACK_IMAGES"
    by (simp add: nat_mod_distrib)
  ultimately show ?thesis using Raises
    by (simp add: cache_item_def randint_Raises item_url_def)
qed

lemma advance_funpow: "(advance ^^ n) g k = g (n + k)"
  by (induction n arbitrary: k) (simp_all add: advance_def)

lemma advance_funpow_add: "(advance ^^ n) ((advance ^^ m) g) = (advance ^^ (m + n)) g"
  by (rule ext) (simp add: advance_funpow add.assoc)

lemma cache_category_eq:
  "cache_category category (map int [a..<a + n]) category_images g =
     (Inr (category_images @ map (\<lambda>k. item_url category (a + k) (g k)) [0..<n]),
      (advance ^^ n) g)"
proof (induction n arbitrary: a category_images g)
  case 0
  show ?case by simp
next
  case (Suc n)
  have l: "[a..<a + Suc n] = a # [Suc a..<Suc a + n]"
    by (simp add: upt_rec)
  have m: "map (\<lambda>k. item_url category (a + k) (g k)) [0..<Suc n] =
      item_url category a (g 0) # map (\<lambda>k. item_url category (Suc a + k) (advance g k)) [0..<n]"
    by (simp add: upt_rec [of 0] map_Suc_upt [symmetric] advance_def del: upt_Suc)
  have "(advance ^^ n) (advance g) = (advance ^^ Suc n) g"
    by (simp add: funpow_swap1)
  with Suc [of "Suc a" "category_images @ [item_url category a (g 0)]" "advance g"]
  show ?case
    by (simp only: l m list.map cache_category.simps cache_item_eq) simp
qed

lemma cache_category_range:
  "cache_category category (py_range count) [] g =
     (Inr (batch_urls category (nat count) g), (advance ^^ nat count) g)"
  using cache_category_eq [of category 0 "nat count" "[]" g]
  by (simp add: py_range_def batch_urls_def)

lemma length_batch_urls: "length (batch_urls category n g) = n"
  by (simp add: batch_urls_def)

lemma cache_loop_total:
  "\<exists>m. cache_loop categories count cached g =
          (Inr m, (advance ^^ (length categories * nat count)) g) \<and>
        dom m = dom cached \<union> set categories \<and>
        (\<forall>c. c \<notin> set categories \<longrightarrow> m c = cached c) \<and>
        (\<forall>c \<in> set categories. \<exists>urls. m c = Some urls \<and> length urls = nat count)"
proof (induction categories arbitrary: cached g)
  case Nil
  show ?case by simp
next
  case (Cons a rest)
  let ?cached = "cached(a \<mapsto> batch_urls a (nat count) g)"
  let ?g = "(advance ^^ nat count) g"
  from Cons [of ?cached ?g] obtain m where
    m: "cache_loop rest count ?cached ?g = (Inr m, (advance ^^ (length rest * nat count)) ?g)"
    and d: "dom m = dom ?cached \<union> set rest"
    and k: "\<forall>c. c \<notin> set rest \<longrightarrow> m c = ?cached c"
    and l: "\<forall>c \<in> set rest. \<exists>urls. m c = Some urls \<and> length urls = nat count"
    by blast
  have "cache_loop (a # rest) count cached g =
      (Inr m, (advance ^^ (length (a # rest) * nat count)) g)"
    by (simp add: cache_category_range m advance_funpow_add)
  moreover have "dom m = dom cached \<union> set (a # rest)"
    using d by auto
  moreover have "\<forall>c. c \<notin> set (a # rest) \<longrightarrow> m c = cached c"
    using k by simp
  moreover have "\<forall>c \<in> set (a # rest). \<exists>urls. m c = Some urls \<and> length urls = nat count"
  proof
    fix c assume c: "c \<in> set (a # rest)"
    show "\<exists>urls. m c = Some urls \<and> length urls = nat count"
    proof (cases "c \<in> set rest")
      case True
      with l show ?thesis by blast
    next
      case False
      with c have "c = a" by simp
      with False k show ?thesis by (simp add: length_batch_urls)
    qed
  qed
  ultimately show ?case by blast
qed

lemma cache_loop_append:
  "cache_loop (xs @ ys) count cached g =
     (case cache_loop xs count cached g of
        (Inl e, g') \<Rightarrow> (Inl e, g')
      | (Inr m, g') \<Rightarrow> cache_loop ys count m g')"
  by (induction xs arbitrary: cached g) (simp_all add: cache_category_range)

lemma cache_loop_last:
  assumes "cache_loop (pre @ c # post) count cached g = (Inr m, g')" and "c \<notin> set post"
  shows "m c = Some (batch_urls c (nat count) ((advance ^^ (length pre * nat count)) g))"
proof -
  let ?g = "(advance ^^ (length pre * nat count)) g"
  from cache_loop_total [of pre count cached g] obtain m1 where
    m1: "cache_loop pre count cached g = (Inr m1, ?g)" by blast
  let ?m2 = "m1(c \<mapsto> batch_urls c (nat count) ?g)"
  from cache_loop_total [of post count ?m2 "(advance ^^ nat count) ?g"] obtain m3 where
    m3: "cache_loop post count ?m2 ((advance ^^ nat count) ?g) =
           (Inr m3, (advance ^^ (length post * nat count)) ((advance ^^ nat count) ?g))"
    and k: "\<forall>c. c \<notin> set post \<longrightarrow> m3 c = ?m2 c"
    by blast
  have "cache_loop (pre @ c # post) count cached g =
      (Inr m3, (advance ^^ (length post * nat count)) ((advance ^^ nat count) ?g))"
    by (simp add: cache_loop_append m1 cache_category_range m3)
  with assms(1) have "m = m3" by simp
  with k assms(2) show ?thesis by simp
qed




text \<open>
  C9. The keys of the mapping that \<^verbatim>\<open>cache_images\<close> returns are the distinct input
  categories, so that a list with a repeated category gives fewer keys than it has
  elements, and every category is mapped to the list built at its last occurrence.
\<close>

theorem cache_images_duplicates:
  "\<exists>m. fst (cache_images categories count g) = Inr m \<and> dom m = set categories \<and>
       card (dom m) \<le> length categories \<and>
       (\<not> distinct categories \<longrightarrow> card (dom m) < length categories) \<and>
       (\<forall>pre c post. categories = pre @ c # post \<and> c \<notin> set post \<longrightarrow>
          m c = Some (batch_urls c (nat count) ((advance ^^ (length pre * nat count)) g)))"
proof -
  from cache_loop_total [of categories count Map.empty g] obtain m where
    m: "cache_loop categories count Map.empty g =
       (Inr m, (advance ^^ (length categories * nat count)) g)"
    and d: "dom m = dom (Map.empty :: string \<rightharpoonup> string list) \<union> set categories"
    by blast
  from d have d': "dom m = set categories" by simp
  from m have f: "fst (cache_images categories count g) = Inr m"
    by (simp add: cache_images_def)
  have c1: "card (dom m) \<le> length categories"
    unfolding d' by (rule card_length)
  have c2: "\<not> distinct categories \<longrightarrow> card (dom m) < length categories"
    unfolding d' using card_distinct [of categories] card_length [of categories]
    by linarith
  have l: "\<forall>pre c post. categories = pre @ c # post \<and> c \<notin> set post \<longrightarrow>
      m c = Some (batch_urls c (nat count) ((advance ^^ (length pre * nat count)) g))"
  proof (intro allI impI)
    fix pre c post
    assume "categories = pre @ c # post \<and> c \<notin> set post"
    with m show "m c =
        Some (batch_urls c (nat count) ((advance ^^ (length pre * nat count)) g))"
      using cache_loop_last [of pre c post count Map.empty g m] by simp
  qed
  from f d' c1 c2 l show ?thesis by blast
qed

theorem cache_images_duplicates_witness:
  "\<exists>m. fst (cache_images [''x'', ''y'', ''x''] 1 (\<lambda>k. Raw k)) = Inr m \<and>
       dom m = {''x'', ''y''} \<and> card (dom m) = 2 \<and>
       m ''x'' = Some [''https://source.unsplash.com/800x600/?x&sig=1002''] \<and>
       m ''y'' = Some [''https://source.unsplash.com/800x600/?y&sig=1001'']"
proof -
  let ?g = "\<lambda>k::nat. Raw k"
  from cache_images_duplicates [of "[''x'', ''y'', ''x'']" 1 ?g] obtain m where
    a: "fst (cache_images [''x'', ''y'', ''x''] 1 ?g) = Inr m"
    and d: "dom m = set [''x'', ''y'', ''x'']"
    and l: "\<forall>pre c post. [''x'', ''y'', ''x''] = pre @ c # post \<and> c \<notin> set post \<longrightarrow>
          m c = Some (batch_urls c (nat 1) ((advance ^^ (length pre * nat 1)) ?g))"
    by blast
  from l [rule_format, of "[''x'', ''y'']" "''x''" "[]"]
  have "m ''x'' = Some [''https://source.unsplash.com/800x600/?x&sig=1002'']"
    by (simp add: batch_urls_def item_url_def advance_def replace_space_def str_int_def
        str_nat.simps digit_char_def)
  moreover from l [rule_format, of "[''x'']" "''y''" "[''x'']"]
  have "m ''y'' = Some [''https://source.unsplash.com/800x600/?y&sig=1001'']"
    by (simp add: batch_urls_def item_url_def advance_def replace_space_def str_int_def
        str_nat.simps digit_char_def)
  moreover have s: "set [''x'', ''y'', ''x''] = {''x'', ''y''}" by auto
  moreover from d s have "dom m = {''x'', ''y''}" and "card (dom m) = 2" by simp_all
  ultimately show ?thesis using a by blast
qed

section \<open>Token ranges\<close>

lemma cache_item_Raw:
  "g 0 = Raw r \<Longrightarrow>
   cache_item category i category_images g =
     (Inr (category_images @ [''https://source.unsplash.com/800x600/?'' @
        replace_space category @ ''&sig='' @ str_int (1000 + int (r mod 9000))]), advance g)"
  by (simp add: cache_item_def randint_Raw)

text \<open>
  C10. The token of a successfully formatted URL lies between 1000 and 9999 for
  \<^verbatim>\<open>get_ai_image\<close> and for each item of \<^verbatim>\<open>cache_images\<close>, between 10000 and
  99999 for \<^verbatim>\<open>get_hero_image\<close>, and between 5000 and 9999 for
  \<^verbatim>\<open>get_profile_image\<close>; \<^verbatim>\<open>get_ai_image\<close> can draw the token 1000, which is
  below the range of \<^verbatim>\<open>get_profile_image\<close>.
\<close>

theorem token_ranges:
  assumes "g 0 = Raw r"
  shows "(\<exists>t. 1000 \<le> t \<and> t \<le> 9999 \<and>
            fst (get_ai_image index width height g) =
              Inr (image_url width height
                     (replace_space (AI_CATEGORIES ! nat (index mod 10))) t)) \<and>
         (\<exists>t. 1000 \<le> t \<and> t \<le> 9999 \<and>
            fst (cache_item category i category_images g) =
              Inr (category_images @ [''https://source.unsplash.com/800x600/?'' @
                     replace_space category @ ''&sig='' @ str_int t])) \<and>
         (\<exists>t. 10000 \<le> t \<and> t \<le> 99999 \<and>
            fst (get_hero_image width height g) =
              Inr (''https://source.unsplash.com/'' @ str_int width @ ''x'' @ str_int height @
                   ''/?artificial+intelligence+technology+code&sig='' @ str_int t)) \<and>
         (\<exists>t. 5000 \<le> t \<and> t \<le> 9999 \<and>
            fst (get_profile_image width height g) =
              Inr (''https://source.unsplash.com/'' @ str_int width @ ''x'' @ str_int height @
                   ''/?professional+portrait+technology&sig='' @ str_int t)) \<and>
         fst (get_ai_image index width height (\<lambda>k. Raw 0)) =
           Inr (image_url width height
                  (replace_space (AI_CATEGORIES ! nat (index mod 10))) 1000)"
proof -
  have b: "int (r mod 9000) < 9000" "int (r mod 90000) < 90000" "int (r mod 5000) < 5000"
    by simp_all
  have "1000 \<le> 1000 + int (r mod 9000) \<and> 1000 + int (r mod 9000) \<le> 9999 \<and>
      fst (get_ai_image index width height g) =
        Inr (image_url width height (replace_space (AI_CATEGORIES ! nat (index mod 10)))
               (1000 + int (r mod 9000)))"
    using assms b(1) by (simp add: get_ai_image_def get_ai_image_try_Raw)
  then have 1: "\<exists>t. 1000 \<le> t \<and> t \<le> 9999 \<and>
      fst (get_ai_image index width height g) =
        Inr (image_url width height (replace_space (AI_CATEGORIES ! nat (index mod 10))) t)"
    by (rule exI)
  have "1000 \<le> 1000 + int (r mod 9000) \<and> 1000 + int (r mod 9000) \<le> 9999 \<and>
      fst (cache_item category i category_images g) =
        Inr (category_images @ [''https://source.unsplash.com/800x600/?'' @
               replace_space category @ ''&sig='' @ str_int (1000 + int (r mod 9000))])"
    using assms b(1) by (simp add: cache_item_Raw)
  then have 2: "\<exists>t. 1000 \<le> t \<and> t \<le> 9999 \<and>
      fst (cache_item category i category_images g) =
        Inr (category_images @ [''https://source.unsplash.com/800x600/?'' @
               replace_space category @ ''&sig='' @ str_int t])"
    by (rule exI)
  have "10000 \<le> 10000 + int (r mod 90000) \<and> 10000 + int (r mod 90000) \<le> 99999 \<and>
      fst (get_hero_image width height g) =
        Inr (''https://source.unsplash.com/'' @ str_int width @ ''x'' @ str_int height @
             ''/?artificial+intelligence+technology+code&sig='' @
             str_int (10000 + int (r mod 90000)))"
    using assms b(2) by (simp add: get_hero_image_def randint_Raw)
  then have 3: "\<exists>t. 10000 \<le> t \<and> t \<le> 99999 \<and>
      fst (get_hero_image width height g) =
        Inr (''https://source.unsplash.com/'' @ str_int width @ ''x'' @ str_int height @
             ''/?artificial+intelligence+technology+code&sig='' @ str_int t)"
    by (rule exI)
  have "5000 \<le> 5000 + int (r mod 5000) \<and> 5000 + int (r mod 5000) \<le> 9999 \<and>
      fst (get_profile_image width height g) =
        Inr (''https://source.unsplash.com/'' @ str_int width @ ''x'' @ str_int height @
             ''/?professional+portrait+technology&sig='' @
             str_int (5000 + int (r mod 5000)))"
    using assms b(3) by (simp add: get_profile_image_def randint_Raw)
  then have 4: "\<exists>t. 5000 \<le> t \<and> t \<le> 9999 \<and>
      fst (get_profile_image width height g) =
        Inr (''https://source.unsplash.com/'' @ str_int width @ ''x'' @ str_int height @
             ''/?professional+portrait+technology&sig='' @ str_int t)"
    by (rule exI)
  have 5: "fst (get_ai_image index width height (\<lambda>k. Raw 0)) =
      Inr (image_url width height (replace_space (AI_CATEGORIES ! nat (index mod 10))) 1000)"
    by (simp add: get_ai_image_def get_ai_image_try_Raw)
  from 1 2 3 4 5 show ?thesis by (intro conjI)
qed

theorem token_ranges_witness:
  "fst (get_ai_image 0 800 600 (\<lambda>k. Raw 123456)) =
     Inr ''https://source.unsplash.com/800x600/?artificial+intelligence&sig=7456'' \<and>
   fst (cache_item ''code'' 0 [] (\<lambda>k. Raw 123456)) =
     Inr [''https://source.unsplash.com/800x600/?code&sig=7456''] \<and>
   fst (get_hero_image 800 600 (\<lambda>k. Raw 123456)) =
     Inr ''https://source.unsplash.com/800x600/?artificial+intelligence+technology+code&sig=43456'' \<and>
   fst (get_profile_image 800 600 (\<lambda>k. Raw 123456)) =
     Inr ''https://source.unsplash.com/800x600/?professional+portrait+technology&sig=8456'' \<and>
   fst (get_ai_image 0 800 600 (\<lambda>k. Raw 0)) =
     Inr ''https://source.unsplash.com/800x600/?artificial+intelligence&sig=1000''"
  using token_ranges [of "\<lambda>k. Raw 123456" 123456 0 800 600 "''code''" 0 "[]"]
  by (simp add: get_ai_image_def get_ai_image_try_Raw cache_item_Raw get_hero_image_def
      get_profile_image_def randint_Raw AI_CATEGORIES_def image_url_def replace_space_def
      str_int_def str_nat.simps digit_char_def)

section \<open>The placeholder graphic\<close>








section \<open>Cardinalities of the content\<close>

text \<open>
  C8. The profile has exactly 8 skills, each with a name and a level between 0 and
  100, and there are exactly 6 projects.
\<close>

theorem content_cardinalities:
  "length (profile_skills get_profile) = 8 \<and>
   list_all (\<lambda>s. skill_name s \<noteq> [] \<and> 0 \<le> skill_level s \<and> skill_level s \<le> 100)
     (profile_skills get_profile) \<and>
   length get_projects = 6"
  by (simp add: get_profile_def get_projects_def)

end
